theory Spec2Isabelle
  imports Main
begin

section \<open>JavaScript values\<close>

text \<open>
  The values that flow through the JSON-RPC client: call parameters, parameter
  descriptors of the command table, connection options and parsed JSON bodies.
  Numbers are integers plus NaN; the client never computes with a number, it only tests
  truthiness and passes the value on. Strings are ASCII strings. The entries of an
  object are listed in the order in which \<^verbatim>\<open>Object.keys\<close> and \<^verbatim>\<open>for ... in\<close>
  enumerate them.
\<close>

datatype jsval =
    JUndefined
  | JNull
  | JBool bool
  | JNum int
  | JNaN
  | JStr string
  | JArr "jsval list"
  | JObj "(string \<times> jsval) list"

text \<open>ToBoolean: the falsy values are undefined, null, false, 0, NaN and the empty string.\<close>

fun truthy :: "jsval \<Rightarrow> bool" where
  "truthy JUndefined = False"
| "truthy JNull = False"
| "truthy (JBool b) = b"
| "truthy (JNum n) = (n \<noteq> 0)"
| "truthy JNaN = False"
| "truthy (JStr s) = (s \<noteq> [])"
| "truthy (JArr xs) = True"
| "truthy (JObj kvs) = True"

text \<open>The \<^verbatim>\<open>typeof\<close> operator; null and arrays are objects.\<close>

fun typeof :: "jsval \<Rightarrow> string" where
  "typeof JUndefined = ''undefined''"
| "typeof JNull = ''object''"
| "typeof (JBool b) = ''boolean''"
| "typeof (JNum n) = ''number''"
| "typeof JNaN = ''number''"
| "typeof (JStr s) = ''string''"
| "typeof (JArr xs) = ''object''"
| "typeof (JObj kvs) = ''object''"

text \<open>Reading \<^verbatim>\<open>params[i]\<close>: an index past the end reads undefined.\<close>

definition index :: "jsval list \<Rightarrow> nat \<Rightarrow> jsval" where
  "index xs i = (if i < length xs then xs ! i else JUndefined)"

text \<open>The errors the client code throws.\<close>

datatype error =
    RequiredParameterNotFound jsval string nat
      \<comment> \<open>\<^verbatim>\<open>Required parameter ${descriptor} not found for method ${method} at params[${i}]!\<close>\<close>
  | TypeError
  | InvalidChain
  | FsError string
  | RequestOptionsError string
      \<comment> \<open>thrown by \<^verbatim>\<open>http.request\<close> or \<^verbatim>\<open>https.request\<close> when it refuses its options\<close>

section \<open>Strings\<close>

definition is_upper :: "char \<Rightarrow> bool" where
  "is_upper c = (65 \<le> (of_char c :: nat) \<and> (of_char c :: nat) \<le> 90)"

definition is_lower :: "char \<Rightarrow> bool" where
  "is_lower c = (97 \<le> (of_char c :: nat) \<and> (of_char c :: nat) \<le> 122)"

definition toLowerCase :: "string \<Rightarrow> string" where
  "toLowerCase s = map (\<lambda>c. if is_upper c then char_of ((of_char c :: nat) + 32) else c) s"

definition toUpperCase :: "string \<Rightarrow> string" where
  "toUpperCase s = map (\<lambda>c. if is_lower c then char_of ((of_char c :: nat) - 32) else c) s"

text \<open>White space and line terminators in the ASCII range: TAB, LF, VT, FF, CR, space.\<close>

definition is_space :: "char \<Rightarrow> bool" where
  "is_space c = ((of_char c :: nat) \<in> {9, 10, 11, 12, 13, 32})"

definition trim :: "string \<Rightarrow> string" where
  "trim s = rev (dropWhile is_space (rev (dropWhile is_space s)))"

definition startsWith :: "string \<Rightarrow> string \<Rightarrow> bool" where
  "startsWith s p = (take (length p) s = p)"

section \<open>The JSON-RPC client: parameter defaults and casing\<close>

text \<open>
  A command table maps a method name to its list of parameter descriptors. The client
  object as \<^verbatim>\<open>call\<close> reads it: the connection options (a reference to a mutable
  object), the command table and the casing value.
\<close>

type_synonym schema = "(string \<times> jsval list) list"

record jsonrpc_client =
  connection :: nat
  commands :: schema
  methodCasing :: jsval

text \<open>
  \<^verbatim>\<open>d[Object.keys(d)[0]]\<close>: the value under the first own enumerable key.
  \<^verbatim>\<open>Object.keys\<close> throws a TypeError on null and undefined; a missing first key reads
  \<^verbatim>\<open>d[undefined]\<close>, which is undefined.
\<close>

fun first_key_value :: "jsval \<Rightarrow> error + jsval" where
  "first_key_value JUndefined = Inl TypeError"
| "first_key_value JNull = Inl TypeError"
| "first_key_value (JObj []) = Inr JUndefined"
| "first_key_value (JObj ((k, v) # kvs)) = Inr v"
| "first_key_value (JArr []) = Inr JUndefined"
| "first_key_value (JArr (x # xs)) = Inr x"
| "first_key_value (JStr []) = Inr JUndefined"
| "first_key_value (JStr (c # cs)) = Inr (JStr [c])"
| "first_key_value (JBool b) = Inr JUndefined"
| "first_key_value (JNum n) = Inr JUndefined"
| "first_key_value JNaN = Inr JUndefined"

text \<open>\<^verbatim>\<open>params[i] || d[Object.keys(d)[0]]\<close>: the right operand is evaluated only when the left is falsy.\<close>

definition param_or_default :: "jsval \<Rightarrow> jsval \<Rightarrow> error + jsval" where
  "param_or_default p d = (if truthy p then Inr p else first_key_value d)"

text \<open>The loop of \<^verbatim>\<open>handleDefaults\<close> over the positions of one command's descriptors.\<close>

function handleDefaults_loop ::
  "string \<Rightarrow> jsval list \<Rightarrow> jsval list \<Rightarrow> nat \<Rightarrow> jsval list \<Rightarrow> error + jsval list" where
  "handleDefaults_loop method ds params i r =
     (if i < length ds then
        (if typeof (ds ! i) \<noteq> ''object'' \<and> \<not> truthy (index params i)
         then Inl (RequiredParameterNotFound (ds ! i) method i)
         else (case param_or_default (index params i) (ds ! i) of
                 Inl e \<Rightarrow> Inl e
               | Inr v \<Rightarrow> handleDefaults_loop method ds params (Suc i) (r @ [v])))
      else Inr r)"
  by pat_completeness auto
termination
  by (relation "measure (\<lambda>(method, ds, params, i, r). length ds - i)") auto

declare handleDefaults_loop.simps [simp del]

text \<open>
  \<^verbatim>\<open>handleDefaults\<close>: the output array starts empty and is filled only when the method
  is a key of the command table. The test \<^verbatim>\<open>method in this.commands\<close> is read as
  membership among the table's own keys; the names every object inherits
  (\<^verbatim>\<open>toString\<close>, \<^verbatim>\<open>constructor\<close> and the like) are not part of the model.
\<close>

definition handleDefaults :: "jsonrpc_client \<Rightarrow> string \<Rightarrow> jsval list \<Rightarrow> error + jsval list" where
  "handleDefaults this method params =
     (case map_of (commands this) method of
        Some ds \<Rightarrow> handleDefaults_loop method ds params 0 []
      | None \<Rightarrow> Inr [])"

text \<open>The casing constants: DEFAULT is 0, UPPER is 1, LOWER is 2.\<close>

definition CASING_DEFAULT :: jsval where "CASING_DEFAULT = JNum 0"
definition CASING_UPPER :: jsval where "CASING_UPPER = JNum 1"
definition CASING_LOWER :: jsval where "CASING_LOWER = JNum 2"

definition handleCasing :: "jsonrpc_client \<Rightarrow> string \<Rightarrow> string" where
  "handleCasing this method =
     (if methodCasing this = CASING_DEFAULT then method
      else if methodCasing this = CASING_UPPER then toUpperCase method
      else if methodCasing this = CASING_LOWER then toLowerCase method
      else method)"

section \<open>The transport\<close>

text \<open>
  A mutable object is a list of properties held in the heap under an address, so that two
  holders of the address see each other's writes. Reading a missing property gives
  undefined; writing replaces the property or appends it.
\<close>

type_synonym object = "(string \<times> jsval) list"

definition get_prop :: "object \<Rightarrow> string \<Rightarrow> jsval" where
  "get_prop ob k = (case map_of ob k of Some v \<Rightarrow> v | None \<Rightarrow> JUndefined)"

fun set_prop :: "string \<Rightarrow> jsval \<Rightarrow> object \<Rightarrow> object" where
  "set_prop k v [] = [(k, v)]"
| "set_prop k v ((k', v') # kvs) =
     (if k' = k then (k, v) # kvs else (k', v') # set_prop k v kvs)"

fun string_of_nat :: "nat \<Rightarrow> string" where
  "string_of_nat n =
     (if n < 10 then [char_of (48 + n)]
      else string_of_nat (n div 10) @ [char_of (48 + n mod 10)])"

declare string_of_nat.simps [simp del]

text \<open>
  ToString, as a template literal applies it to an interpolated value (numbers are
  written out in full, without the exponent form of large ones).
\<close>

definition string_of_int :: "int \<Rightarrow> string" where
  "string_of_int n = (if n < 0 then ''-'' @ string_of_nat (nat (- n)) else string_of_nat (nat n))"

fun join :: "string \<Rightarrow> string list \<Rightarrow> string" where
  "join sep [] = []"
| "join sep [x] = x"
| "join sep (x # y # ys) = x @ sep @ join sep (y # ys)"

fun ToString :: "jsval \<Rightarrow> string" where
  "ToString JUndefined = ''undefined''"
| "ToString JNull = ''null''"
| "ToString (JBool b) = (if b then ''true'' else ''false'')"
| "ToString (JNum n) = string_of_int n"
| "ToString JNaN = ''NaN''"
| "ToString (JStr s) = s"
| "ToString (JArr xs) =
     join '','' (map (\<lambda>x. if x = JUndefined \<or> x = JNull then [] else ToString x) xs)"
| "ToString (JObj kvs) = ''[object Object]''"

text \<open>The own enumerable properties that \<^verbatim>\<open>Object.assign\<close> copies from a source value.\<close>

fun own_enumerable :: "jsval \<Rightarrow> object" where
  "own_enumerable (JObj kvs) = kvs"
| "own_enumerable (JArr xs) = zip (map string_of_nat [0..<length xs]) xs"
| "own_enumerable (JStr s) = zip (map string_of_nat [0..<length s]) (map (\<lambda>c. JStr [c]) s)"
| "own_enumerable v = []"

definition object_assign :: "object \<Rightarrow> jsval \<Rightarrow> object" where
  "object_assign target src = fold (\<lambda>(k, v). set_prop k v) (own_enumerable src) target"

datatype scheme = Http | Https

text \<open>
  What the client code takes from its platform: the uuid generator (the value of its
  n-th invocation), \<^verbatim>\<open>JSON.stringify\<close>, \<^verbatim>\<open>JSON.parse\<close> (None when it throws a
  SyntaxError), \<^verbatim>\<open>Buffer.byteLength\<close>, and the check that \<^verbatim>\<open>web.request\<close> of the
  chosen module makes of its options before it sends anything: the error it throws, or
  None when it accepts them.
\<close>

record builtins =
  uuid :: "nat \<Rightarrow> string"
  stringify :: "jsval \<Rightarrow> string"
  parse :: "string \<Rightarrow> jsval option"
  byteLength :: "string \<Rightarrow> nat"
  web_request :: "scheme \<Rightarrow> object \<Rightarrow> error option"

text \<open>
  The part of that check which depends on what \<^verbatim>\<open>request\<close> itself decides: Node
  compares \<^verbatim>\<open>options.protocol\<close>, when it is truthy, with the protocol of the module
  (\<^verbatim>\<open>http:\<close> or \<^verbatim>\<open>https:\<close>) and throws on any other value.
\<close>

definition expected_protocol :: "scheme \<Rightarrow> string" where
  "expected_protocol sch = (case sch of Http \<Rightarrow> ''http:'' | Https \<Rightarrow> ''https:'')"

definition node_protocol_check :: "scheme \<Rightarrow> object \<Rightarrow> error option" where
  "node_protocol_check sch opts =
     (case map_of opts ''protocol'' of
        None \<Rightarrow> None
      | Some p \<Rightarrow>
          (if truthy p \<and> p \<noteq> JStr (expected_protocol sch)
           then Some (RequestOptionsError ''ERR_INVALID_PROTOCOL'') else None))"

definition RPC_VERSION :: string where
  "RPC_VERSION = ''2.0''"

text \<open>The constructor of \<^verbatim>\<open>JSONRPCRequest\<close>; \<open>ident\<close> is what \<^verbatim>\<open>uuid()\<close> returned.\<close>

definition JSONRPCRequest :: "string \<Rightarrow> string \<Rightarrow> jsval list \<Rightarrow> jsval" where
  "JSONRPCRequest ident method params =
     JObj [(''id'', JStr ident), (''method'', JStr method), (''params'', JArr params),
           (''jsonrpc'', JStr RPC_VERSION)]"

record http_exchange =
  web :: scheme
  sent_options :: object
  sent_body :: string

datatype fs_op = Readdir string | Stat string | ReadFile string

record world =
  heap :: "nat \<Rightarrow> object"
  uuid_calls :: nat
  exchanges :: "http_exchange list"
  fs_log :: "fs_op list"

text \<open>
  The choice of the http or https module. A truthy \<^verbatim>\<open>options.protocol\<close> that is not
  a string has no \<^verbatim>\<open>trim\<close> method: a TypeError.
\<close>

definition select_web :: "jsval \<Rightarrow> error + scheme" where
  "select_web p =
     (if truthy p then
        (case p of
           JStr s \<Rightarrow> Inr (if startsWith (toLowerCase (trim s)) ''https'' then Https else Http)
         | _ \<Rightarrow> Inl TypeError)
      else Inr Http)"

text \<open>The writes of \<^verbatim>\<open>request\<close> to its options object, in the order of the source.\<close>

definition prepare_options :: "nat \<Rightarrow> object \<Rightarrow> object" where
  "prepare_options len opts =
     (let h0 = object_assign [] (get_prop opts ''headers'');
          h1 = set_prop ''content-type'' (JStr ''application/json'') h0;
          h2 = set_prop ''content-length'' (JNum (int len)) h1;
          o1 = set_prop ''headers'' (JObj h2) opts;
          o2 = set_prop ''method'' (JStr ''POST'') o1
      in if truthy (get_prop o2 ''user'') \<and> truthy (get_prop o2 ''pass'')
         then set_prop ''auth''
                (JStr (ToString (get_prop o2 ''user'') @ '':'' @ ToString (get_prop o2 ''pass''))) o2
         else o2)"

text \<open>
  The promise \<^verbatim>\<open>request\<close> returns: rejected at once when the executor throws, or
  waiting for the exchange it started. The exchange records the module chosen, the
  options as they were when \<^verbatim>\<open>web.request\<close> was called and the body written. The
  options object is written before \<^verbatim>\<open>web.request\<close> is called, so those writes stay
  when \<^verbatim>\<open>web.request\<close> throws; no exchange is started then and nothing is sent.
\<close>

datatype promise = Rejected error | InFlight http_exchange

definition request :: "builtins \<Rightarrow> string \<Rightarrow> jsval list \<Rightarrow> nat \<Rightarrow> world \<Rightarrow> promise \<times> world" where
  "request b method params options w =
     (let data = stringify b (JSONRPCRequest (uuid b (uuid_calls w)) (trim method) params);
          w1 = w\<lparr>uuid_calls := Suc (uuid_calls w)\<rparr>
      in case select_web (get_prop (heap w1 options) ''protocol'') of
           Inl e \<Rightarrow> (Rejected e, w1)
         | Inr sch \<Rightarrow>
             (let opts = prepare_options (byteLength b data) (heap w1 options);
                  w2 = w1\<lparr>heap := (heap w1)(options := opts)\<rparr>;
                  ex = \<lparr>web = sch, sent_options = opts, sent_body = data\<rparr>
              in case web_request b sch opts of
                   Some e \<Rightarrow> (Rejected e, w2)
                 | None \<Rightarrow> (InFlight ex, w2\<lparr>exchanges := exchanges w2 @ [ex]\<rparr>)))"

text \<open>The response as the \<^verbatim>\<open>end\<close> handler sees it, and how the promise is settled.\<close>

record response =
  statusCode :: int
  headers :: "(string \<times> string) list"
  chunks :: "string list"

datatype settlement =
    Resolve jsval
  | RejectJson jsval
  | RejectHttp int  \<comment> \<open>\<^verbatim>\<open>new Error(`Request failed. HTTP ${res.statusCode}`)\<close>\<close>
  | RejectError string  \<comment> \<open>the error of the request's \<^verbatim>\<open>error\<close> event\<close>
  | Uncaught  \<comment> \<open>\<^verbatim>\<open>JSON.parse\<close> threw inside the handler: the promise is never settled\<close>

definition on_end :: "builtins \<Rightarrow> response \<Rightarrow> settlement" where
  "on_end b res =
     (let body = concat (chunks res) in
      if statusCode res = 200 then
        (case parse b body of Some v \<Rightarrow> Resolve v | None \<Rightarrow> Uncaught)
      else if map_of (headers res) ''content-type'' = Some ''application/json'' then
        (case parse b body of Some v \<Rightarrow> RejectJson v | None \<Rightarrow> Uncaught)
      else RejectHttp (statusCode res))"

definition on_error :: "string \<Rightarrow> settlement" where
  "on_error err = RejectError err"

text \<open>
  \<^verbatim>\<open>call\<close>: the arguments of \<^verbatim>\<open>request\<close> are evaluated first, so an error thrown by
  \<^verbatim>\<open>handleDefaults\<close> leaves the world as it was.
\<close>

definition call ::
  "builtins \<Rightarrow> jsonrpc_client \<Rightarrow> string \<Rightarrow> jsval list \<Rightarrow> world \<Rightarrow> (error + promise) \<times> world" where
  "call b this method params w =
     (let m = handleCasing this method in
      case handleDefaults this method params of
        Inl e \<Rightarrow> (Inl e, w)
      | Inr r \<Rightarrow> (let (p, w') = request b m r (connection this) w in (Inr p, w')))"

section \<open>The Multichain client: connection resolution\<close>

text \<open>
  The file system as the resolver reads it. Each operation returns its result or the
  error it throws; the operations performed are appended to the log of the world.
\<close>

record fsys =
  readdirSync :: "string \<Rightarrow> error + string list"
  isDirectory :: "string \<Rightarrow> error + bool"
  readFileSync :: "string \<Rightarrow> error + string"

text \<open>\<^verbatim>\<open>s.split(c)\<close> for a one-character separator: always at least one piece.\<close>

fun split :: "char \<Rightarrow> string \<Rightarrow> string list" where
  "split c [] = [[]]"
| "split c (x # xs) =
     (if x = c then [] # split c xs
      else (case split c xs of y # ys \<Rightarrow> (x # y) # ys | [] \<Rightarrow> [[x]]))"

text \<open>
  \<^verbatim>\<open>s.split(/\s+/g)[0]\<close>: the characters before the first white space (the empty
  string when the string starts with white space or is empty).
\<close>

definition first_token :: "string \<Rightarrow> string" where
  "first_token s = takeWhile (\<lambda>c. \<not> is_space c) s"

text \<open>The lines of a file: \<^verbatim>\<open>content.trim().split('\n').map(e => e.trim())\<close>.\<close>

definition file_lines :: "string \<Rightarrow> string list" where
  "file_lines content = map trim (split (CHR 0x0A) (trim content))"

text \<open>\<^verbatim>\<open>line.split('=')[1]\<close>: undefined when the line has no equals sign.\<close>

definition after_equals :: "string \<Rightarrow> jsval" where
  "after_equals line = (case split CHR ''='' line of a # v # rest \<Rightarrow> JStr v | _ \<Rightarrow> JUndefined)"

text \<open>The filter of \<^verbatim>\<open>getChainNames\<close>: \<^verbatim>\<open>statSync\<close> runs first for every entry.\<close>

fun chain_filter ::
  "fsys \<Rightarrow> string \<Rightarrow> string list \<Rightarrow> fs_op list \<Rightarrow> (error + string list) \<times> fs_op list" where
  "chain_filter fs path [] lg = (Inr [], lg)"
| "chain_filter fs path (element # es) lg =
     (let p = path @ ''/'' @ element; lg1 = lg @ [Stat p] in
      case isDirectory fs p of
        Inl e \<Rightarrow> (Inl e, lg1)
      | Inr d \<Rightarrow>
          (case chain_filter fs path es lg1 of
             (Inl e, lg2) \<Rightarrow> (Inl e, lg2)
           | (Inr rest, lg2) \<Rightarrow>
               (Inr (if d \<and> \<not> startsWith element ''.'' \<and> element \<noteq> ''multichaind''
                     then element # rest else rest), lg2)))"

definition getChainNames :: "fsys \<Rightarrow> string \<Rightarrow> fs_op list \<Rightarrow> (error + string list) \<times> fs_op list" where
  "getChainNames fs CHAIN_PATH lg =
     (case readdirSync fs CHAIN_PATH of
        Inl e \<Rightarrow> (Inl e, lg @ [Readdir CHAIN_PATH])
      | Inr es \<Rightarrow> chain_filter fs CHAIN_PATH es (lg @ [Readdir CHAIN_PATH]))"

definition write_field :: "nat \<Rightarrow> string \<Rightarrow> jsval \<Rightarrow> world \<Rightarrow> world" where
  "write_field a k v w = w\<lparr>heap := (heap w)(a := set_prop k v (heap w a))\<rparr>"

text \<open>The port: the first line starting with \<^verbatim>\<open>default-rpc-port\<close>, its part after the equals sign, trimmed, up to the first white space.\<close>

definition port_of :: "string list \<Rightarrow> error + jsval" where
  "port_of ls =
     (case List.find (\<lambda>element. startsWith element ''default-rpc-port'') ls of
        None \<Rightarrow> Inl TypeError
      | Some line \<Rightarrow>
          (case after_equals line of
             JStr v \<Rightarrow> Inr (JStr (first_token (trim v)))
           | _ \<Rightarrow> Inl TypeError))"

text \<open>
  \<^verbatim>\<open>getConnectionByName\<close>: the connection is the address of the caller's object; each
  field is written as soon as it is computed, so an error in a later step leaves the
  earlier writes in place.
\<close>

definition read_config :: "fsys \<Rightarrow> string \<Rightarrow> nat \<Rightarrow> world \<Rightarrow> (error + nat) \<times> world" where
  "read_config fs dir conn w =
     (let w1 = w\<lparr>fs_log := fs_log w @ [ReadFile (dir @ ''/multichain.conf'')]\<rparr> in
      case readFileSync fs (dir @ ''/multichain.conf'') of
        Inl e \<Rightarrow> (Inl e, w1)
      | Inr content \<Rightarrow>
          (case file_lines content of
             [] \<Rightarrow> (Inl TypeError, w1)
           | line0 # rest0 \<Rightarrow>
               (let w2 = write_field conn ''user'' (after_equals line0) w1 in
                case rest0 of
                  [] \<Rightarrow> (Inl TypeError, w2)
                | line1 # rest1 \<Rightarrow>
                    (let w3 = write_field conn ''pass'' (after_equals line1) w2;
                         w4 = w3\<lparr>fs_log := fs_log w3 @ [ReadFile (dir @ ''/params.dat'')]\<rparr> in
                     case readFileSync fs (dir @ ''/params.dat'') of
                       Inl e \<Rightarrow> (Inl e, w4)
                     | Inr pcontent \<Rightarrow>
                         (case port_of (file_lines pcontent) of
                            Inl e \<Rightarrow> (Inl e, w4)
                          | Inr port \<Rightarrow> (Inr conn, write_field conn ''port'' port w4))))))"

definition getConnectionByName ::
  "fsys \<Rightarrow> string \<Rightarrow> string \<Rightarrow> nat \<Rightarrow> world \<Rightarrow> (error + nat) \<times> world" where
  "getConnectionByName fs CHAIN_PATH name conn w =
     (case getChainNames fs CHAIN_PATH (fs_log w) of
        (Inl e, lg) \<Rightarrow> (Inl e, w\<lparr>fs_log := lg\<rparr>)
      | (Inr chainNames, lg) \<Rightarrow>
          (if name \<in> set chainNames
           then read_config fs (CHAIN_PATH @ ''/'' @ name) conn (w\<lparr>fs_log := lg\<rparr>)
           else (Inl InvalidChain, w\<lparr>fs_log := lg\<rparr>)))"

text \<open>The Multichain client adds the chain name; its setter resolves the connection first.\<close>

record client = jsonrpc_client +
  name :: string

definition set_name :: "fsys \<Rightarrow> string \<Rightarrow> client \<Rightarrow> string \<Rightarrow> world \<Rightarrow> (error + client) \<times> world" where
  "set_name fs CHAIN_PATH this v w =
     (case getConnectionByName fs CHAIN_PATH v (connection this) w of
        (Inl e, w') \<Rightarrow> (Inl e, w')
      | (Inr c, w') \<Rightarrow> (Inr (this\<lparr>connection := c, name := v\<rparr>), w'))"

section \<open>The client object and its command bindings\<close>

text \<open>
  The setter of \<^verbatim>\<open>commands\<close> deletes and creates properties of the client object
  under names taken from the command table, in the same name space as the object's own
  fields. An instance of \<^verbatim>\<open>JSONRPCClient\<close> is therefore modelled by its own
  properties. \<open>PFun c\<close> is the function
  \<^verbatim>\<open>function () { return this.call(c, arguments) }\<close> created for the command \<open>c\<close>.
\<close>

datatype property = PRef nat | PSchema schema | PVal jsval | PFun string

type_synonym client_object = "string \<Rightarrow> property option"

text \<open>
  A property that is not an own property is looked up on \<^verbatim>\<open>JSONRPCClient.prototype\<close>,
  which holds the methods and the accessor \<^verbatim>\<open>commands\<close>.
\<close>

datatype member = Own property | Method string | Accessor string

definition JSONRPCClient_prototype :: "string \<Rightarrow> member option" where
  "JSONRPCClient_prototype k =
     (if k \<in> {''constructor'', ''call'', ''handleDefaults'', ''handleCasing''} then Some (Method k)
      else if k = ''commands'' then Some (Accessor k)
      else None)"

text \<open>
  The object is an instance of \<^verbatim>\<open>JSONRPCClient\<close> itself or of the Multichain
  \<^verbatim>\<open>Client\<close>, whose prototype adds the accessor \<^verbatim>\<open>name\<close> in front of the
  inherited members.
\<close>

datatype class_of = JSONRPCClient_class | Client_class

definition prototype_of :: "class_of \<Rightarrow> string \<Rightarrow> member option" where
  "prototype_of cls k =
     (if cls = Client_class \<and> k = ''name'' then Some (Accessor k) else JSONRPCClient_prototype k)"

definition resolve :: "class_of \<Rightarrow> client_object \<Rightarrow> string \<Rightarrow> member option" where
  "resolve cls this k = (case this k of Some p \<Rightarrow> Some (Own p) | None \<Rightarrow> prototype_of cls k)"

text \<open>
  The keys a \<^verbatim>\<open>for ... in\<close> loop visits: those of a command table; none for undefined
  and none for a function.
\<close>

definition for_in_keys :: "property option \<Rightarrow> string list" where
  "for_in_keys p = (case p of Some (PSchema s) \<Rightarrow> map fst s | _ \<Rightarrow> [])"

text \<open>
  The first loop of the setter and the assignment to \<^verbatim>\<open>_commands\<close>. The loop runs
  over the object \<^verbatim>\<open>this._commands\<close> held when the loop started.
\<close>

definition unbind_and_store :: "client_object \<Rightarrow> property \<Rightarrow> client_object" where
  "unbind_and_store this v =
     (let this1 = fold (\<lambda>command t. t(command := None)) (for_in_keys (this ''_commands'')) this
      in this1(''_commands'' \<mapsto> v))"

text \<open>
  \<^verbatim>\<open>this[command] = function ...\<close> for a name that is not \<^verbatim>\<open>name\<close> on a
  Multichain client. Under the name \<^verbatim>\<open>commands\<close> the assignment
  reaches the accessor of the prototype and runs the setter again, with the new function
  as its value; a function has no enumerable keys, so that inner run ends after storing
  it. Every other name becomes an own property.
\<close>

definition bind_command :: "string \<Rightarrow> client_object \<Rightarrow> client_object" where
  "bind_command command this =
     (if command = ''commands'' then unbind_and_store this (PFun command)
      else this(command \<mapsto> PFun command))"

text \<open>The setter on an instance of \<^verbatim>\<open>JSONRPCClient\<close> itself, where no assignment throws.\<close>

definition set_commands :: "client_object \<Rightarrow> property \<Rightarrow> client_object" where
  "set_commands this v =
     (let this2 = unbind_and_store this v
      in fold bind_command (for_in_keys (this2 ''_commands'')) this2)"

text \<open>
  The setter of \<^verbatim>\<open>name\<close> run with a function as its value:
  \<^verbatim>\<open>getConnectionByName\<close> enumerates the chain names, none of which is a function,
  and throws; an error of the enumeration is thrown instead when that fails.
\<close>

definition set_name_function :: "fsys \<Rightarrow> string \<Rightarrow> world \<Rightarrow> error \<times> world" where
  "set_name_function fs CHAIN_PATH w =
     (case getChainNames fs CHAIN_PATH (fs_log w) of
        (Inl e, lg) \<Rightarrow> (e, w\<lparr>fs_log := lg\<rparr>)
      | (Inr chainNames, lg) \<Rightarrow> (InvalidChain, w\<lparr>fs_log := lg\<rparr>))"

text \<open>
  \<^verbatim>\<open>this[command] = function ...\<close> on an object of either class. On a Multichain
  client the name \<^verbatim>\<open>name\<close> reaches the accessor of its prototype, whose setter
  throws; the object is left as it is. The result carries the error thrown, if any.
\<close>

definition bind_command_on ::
  "class_of \<Rightarrow> fsys \<Rightarrow> string \<Rightarrow> string \<Rightarrow> client_object \<Rightarrow> world \<Rightarrow>
     (error option \<times> client_object) \<times> world" where
  "bind_command_on cls fs CHAIN_PATH command this w =
     (if cls = Client_class \<and> command = ''name''
      then (case set_name_function fs CHAIN_PATH w of (e, w') \<Rightarrow> ((Some e, this), w'))
      else ((None, bind_command command this), w))"

text \<open>The second loop of the setter: an error ends it, with the keys after it not visited.\<close>

fun bind_loop ::
  "class_of \<Rightarrow> fsys \<Rightarrow> string \<Rightarrow> string list \<Rightarrow> client_object \<Rightarrow> world \<Rightarrow>
     (error option \<times> client_object) \<times> world" where
  "bind_loop cls fs CHAIN_PATH [] this w = ((None, this), w)"
| "bind_loop cls fs CHAIN_PATH (command # cs) this w =
     (case bind_command_on cls fs CHAIN_PATH command this w of
        ((Some e, this'), w') \<Rightarrow> ((Some e, this'), w')
      | ((None, this'), w') \<Rightarrow> bind_loop cls fs CHAIN_PATH cs this' w')"

text \<open>The setter of \<^verbatim>\<open>commands\<close> on an object of either class.\<close>

definition set_commands_on ::
  "class_of \<Rightarrow> fsys \<Rightarrow> string \<Rightarrow> client_object \<Rightarrow> property \<Rightarrow> world \<Rightarrow>
     (error option \<times> client_object) \<times> world" where
  "set_commands_on cls fs CHAIN_PATH this v w =
     (let this2 = unbind_and_store this v
      in bind_loop cls fs CHAIN_PATH (for_in_keys (this2 ''_commands'')) this2 w)"

text \<open>
  The constructor of \<^verbatim>\<open>JSONRPCClient\<close>, run for an object of that class:
  \<^verbatim>\<open>connection\<close>, then \<^verbatim>\<open>commands\<close> through the setter, then
  \<^verbatim>\<open>methodCasing\<close>, whose default applies to an undefined argument.
\<close>

definition new_JSONRPCClient :: "nat \<Rightarrow> schema \<Rightarrow> jsval \<Rightarrow> client_object" where
  "new_JSONRPCClient conn cmds casing =
     (let this1 = (Map.empty :: client_object)(''connection'' \<mapsto> PRef conn);
          this2 = set_commands this1 (PSchema cmds)
      in this2(''methodCasing'' \<mapsto> PVal (if casing = JUndefined then CASING_LOWER else casing)))"

text \<open>
  The client record that \<^verbatim>\<open>call\<close> works on, read off an object whose three fields
  hold values of their documented kinds and whose methods are not shadowed.
\<close>

definition as_client :: "client_object \<Rightarrow> jsonrpc_client option" where
  "as_client this =
     (case (this ''connection'', this ''_commands'', this ''methodCasing'') of
        (Some (PRef a), Some (PSchema s), Some (PVal c)) \<Rightarrow>
          (if this ''call'' = None \<and> this ''handleDefaults'' = None \<and> this ''handleCasing'' = None
           then Some \<lparr>connection = a, commands = s, methodCasing = c\<rparr>
           else None)
      | _ \<Rightarrow> None)"

section \<open>Notions used in the statements\<close>

text \<open>The operations that read the content of a file.\<close>

fun is_read_file :: "fs_op \<Rightarrow> bool" where
  "is_read_file (ReadFile p) = True"
| "is_read_file (Readdir p) = False"
| "is_read_file (Stat p) = False"

text \<open>The ids given out so far: the values of the uuid generator's earlier invocations.\<close>

definition issued_ids :: "builtins \<Rightarrow> world \<Rightarrow> string set" where
  "issued_ids b w = uuid b ` {..<uuid_calls w}"




section \<open>Example inputs\<close>

text \<open>
  Concrete inputs on which the statements below are evaluated: stand-ins for the platform
  functions (a generator that counts in unary, a serialiser that writes strings without
  quotes, a parser that knows two bodies, the protocol check of Node), a world with one connection object at address 0, and a client with one
  command that has two required parameters and one default.
\<close>

fun render :: "jsval \<Rightarrow> string" where
  "render JUndefined = ''null''"
| "render JNull = ''null''"
| "render (JBool b) = (if b then ''true'' else ''false'')"
| "render (JNum n) = string_of_int n"
| "render JNaN = ''null''"
| "render (JStr s) = s"
| "render (JArr xs) = ''['' @ join '','' (map render xs) @ '']''"
| "render (JObj kvs) = ''{'' @ join '','' (map (\<lambda>kv. fst kv @ '':'' @ render (snd kv)) kvs) @ ''}''"

definition body_of :: "promise \<Rightarrow> string option" where
  "body_of p = (case p of InFlight ex \<Rightarrow> Some (sent_body ex) | Rejected e \<Rightarrow> None)"

definition demo_builtins :: builtins where
  "demo_builtins =
     \<lparr>uuid = (\<lambda>n. ''uuid-'' @ replicate n (CHR ''x'')),
      stringify = render,
      parse = (\<lambda>s. if s = ''[500]'' then Some (JArr [JNum 500])
                    else if s = ''42'' then Some (JNum 42) else None),
      byteLength = length,
      web_request = node_protocol_check\<rparr>"

definition demo_world :: world where
  "demo_world =
     \<lparr>heap = (\<lambda>a. if a = 0 then [(''host'', JStr ''localhost''), (''user'', JStr ''rpc''),
                                   (''pass'', JStr ''secret'')] else []),
      uuid_calls = 0, exchanges = [], fs_log = []\<rparr>"

definition demo_fs :: fsys where
  "demo_fs =
     \<lparr>readdirSync = (\<lambda>p. if p = ''/home/u/.multichain''
                           then Inr [''.cli_history'', ''chain1'', ''multichaind'']
                           else Inl (FsError ''ENOENT'')),
      isDirectory = (\<lambda>p. Inr (p \<noteq> ''/home/u/.multichain/.cli_history'')),
      readFileSync = (\<lambda>p.
        if p = ''/home/u/.multichain/chain1/multichain.conf''
        then Inr (''rpcuser=multichainrpc'' @ [CHR 0x0A] @ ''rpcpassword=s3cret'' @ [CHR 0x0A])
        else if p = ''/home/u/.multichain/chain1/params.dat''
        then Inr (''chain-protocol = multichain'' @ [CHR 0x0A] @
                  ''default-rpc-port = 4270    # Default TCP/IP port'' @ [CHR 0x0A])
        else Inl (FsError ''ENOENT''))\<rparr>"

definition demo_chain_client :: client where
  "demo_chain_client = \<lparr>connection = 0, commands = [], methodCasing = CASING_LOWER, name = []\<rparr>"


definition demo_client :: jsonrpc_client where
  "demo_client =
     \<lparr>connection = 0,
      commands = [(''send'', [JStr ''address'', JStr ''amount'', JObj [(''comment'', JStr ''none'')]])],
      methodCasing = CASING_LOWER\<rparr>"

section \<open>The transport: basic facts\<close>

lemma get_set_prop:
  "get_prop (set_prop k v ob) k' = (if k' = k then v else get_prop ob k')"
  by (induction ob) (auto simp: get_prop_def)

lemma map_of_set_prop:
  "map_of (set_prop k v ob) k' = (if k' = k then Some v else map_of ob k')"
  by (induction ob) auto

lemma prepare_options_method:
  "get_prop (prepare_options n opts) ''method'' = JStr ''POST''"
  by (simp add: prepare_options_def Let_def get_set_prop)

lemma prepare_options_headers:
  "\<exists>h. get_prop (prepare_options n opts) ''headers'' = JObj h \<and>
       get_prop h ''content-type'' = JStr ''application/json'' \<and>
       get_prop h ''content-length'' = JNum (int n)"
  by (simp add: prepare_options_def Let_def get_set_prop)

lemma prepare_options_auth:
  "get_prop (prepare_options n opts) ''auth'' =
     (if truthy (get_prop opts ''user'') \<and> truthy (get_prop opts ''pass'')
      then JStr (ToString (get_prop opts ''user'') @ '':'' @ ToString (get_prop opts ''pass''))
      else get_prop opts ''auth'')"
  by (simp add: prepare_options_def Let_def get_set_prop)

lemma prepare_options_other:
  "k \<notin> {''headers'', ''method'', ''auth''} \<Longrightarrow>
   get_prop (prepare_options n opts) k = get_prop opts k"
  by (simp add: prepare_options_def Let_def get_set_prop)

lemma prepare_options_protocol:
  "map_of (prepare_options n opts) ''protocol'' = map_of opts ''protocol''"
  by (simp add: prepare_options_def Let_def map_of_set_prop)

text \<open>Node's protocol check looks at nothing that \<^verbatim>\<open>request\<close> writes.\<close>

lemma node_protocol_check_prepared:
  "node_protocol_check sch (prepare_options n opts) = node_protocol_check sch opts"
  by (simp add: node_protocol_check_def prepare_options_protocol)

lemma request_in_flight:
  "select_web (get_prop (heap w options) ''protocol'') = Inr sch \<Longrightarrow>
   web_request b sch
     (prepare_options
        (byteLength b (stringify b (JSONRPCRequest (uuid b (uuid_calls w)) (trim m) params)))
        (heap w options)) = None \<Longrightarrow>
   request b m params options w =
     (let data = stringify b (JSONRPCRequest (uuid b (uuid_calls w)) (trim m) params);
          opts = prepare_options (byteLength b data) (heap w options);
          ex = \<lparr>web = sch, sent_options = opts, sent_body = data\<rparr>
      in (InFlight ex,
          w\<lparr>uuid_calls := Suc (uuid_calls w), heap := (heap w)(options := opts),
            exchanges := exchanges w @ [ex]\<rparr>))"
  by (simp add: request_def Let_def)

lemma request_refused:
  "select_web (get_prop (heap w options) ''protocol'') = Inr sch \<Longrightarrow>
   web_request b sch
     (prepare_options
        (byteLength b (stringify b (JSONRPCRequest (uuid b (uuid_calls w)) (trim m) params)))
        (heap w options)) = Some e \<Longrightarrow>
   fst (request b m params options w) = Rejected e \<and>
   exchanges (snd (request b m params options w)) = exchanges w"
  by (simp add: request_def Let_def)

lemma demo_protocol: "select_web (get_prop (heap demo_world 0) ''protocol'') = Inr Http"
  by (simp add: demo_world_def get_prop_def select_web_def)

lemma demo_accepted: "web_request demo_builtins Http (prepare_options n (heap demo_world 0)) = None"
  by (simp add: demo_builtins_def node_protocol_check_prepared)
     (simp add: node_protocol_check_def demo_world_def)

lemma demo_request:
  "request demo_builtins m params 0 demo_world =
     (let data = render (JSONRPCRequest ''uuid-'' (trim m) params);
          opts = prepare_options (length data) (heap demo_world 0);
          ex = \<lparr>web = Http, sent_options = opts, sent_body = data\<rparr>
      in (InFlight ex,
          demo_world\<lparr>uuid_calls := Suc 0, heap := (heap demo_world)(0 := opts),
            exchanges := [ex]\<rparr>))"
proof -
  have d: "stringify demo_builtins = render" "byteLength demo_builtins = length"
    "uuid demo_builtins 0 = ''uuid-''"
    by (simp_all add: demo_builtins_def)
  have w: "uuid_calls demo_world = 0" "exchanges demo_world = []"
    by (simp_all add: demo_world_def)
  show ?thesis
    using request_in_flight [OF demo_protocol demo_accepted, of m params]
    by (simp add: d w Let_def)
qed

section \<open>Parameter defaults\<close>








lemma call_delegates:
  "handleDefaults this m params = Inr r \<Longrightarrow>
   call b this m params w =
     (case request b (handleCasing this m) r (connection this) w of (p, w') \<Rightarrow> (Inr p, w'))"
  by (simp add: call_def)


text \<open>
  C1. The claim: for a method that is not a key of the command table, \<^verbatim>\<open>call\<close> hands
  the caller's parameters to the transport unchanged. The code returns its empty output
  array for such a method: with the parameter list \<open>[7]\<close> the method \<^verbatim>\<open>getinfo\<close>,
  absent from the table, is sent exactly as it is with no parameters at all.
\<close>

theorem absent_method_drops_params:
  "handleDefaults demo_client ''getinfo'' [JNum 7] = Inr [] \<and>
   map_of (commands demo_client) ''getinfo'' = None \<and>
   fst (call demo_builtins demo_client ''getinfo'' [JNum 7] demo_world) =
     fst (call demo_builtins demo_client ''getinfo'' [] demo_world)"
  by (simp add: handleDefaults_def demo_client_def call_def)






section \<open>Casing\<close>

lemma toLowerCase_Foo: "toLowerCase ''Foo'' = ''foo''"
  by code_simp

lemma toUpperCase_Foo: "toUpperCase ''Foo'' = ''FOO''"
  by code_simp

text \<open>
  C7. \<^verbatim>\<open>handleCasing\<close> is a total function of the casing value and the method string:
  LOWER gives the method in lower case, UPPER in upper case, DEFAULT (the unchanged
  policy) the method as given, and so does every value outside these three. The
  constructor's default for an undefined casing argument is LOWER.
\<close>

theorem handleCasing_policies:
  "handleCasing (this\<lparr>methodCasing := CASING_LOWER\<rparr>) m = toLowerCase m \<and>
   handleCasing (this\<lparr>methodCasing := CASING_UPPER\<rparr>) m = toUpperCase m \<and>
   handleCasing (this\<lparr>methodCasing := CASING_DEFAULT\<rparr>) m = m \<and>
   (p \<notin> {CASING_DEFAULT, CASING_UPPER, CASING_LOWER} \<longrightarrow>
      handleCasing (this\<lparr>methodCasing := p\<rparr>) m = m) \<and>
   new_JSONRPCClient conn cmds JUndefined ''methodCasing'' = Some (PVal CASING_LOWER)"
  by (simp add: handleCasing_def CASING_DEFAULT_def CASING_UPPER_def CASING_LOWER_def
      new_JSONRPCClient_def)

theorem handleCasing_policies_witness:
  "handleCasing (demo_client\<lparr>methodCasing := CASING_LOWER\<rparr>) ''Foo'' = ''foo'' \<and>
   handleCasing (demo_client\<lparr>methodCasing := CASING_UPPER\<rparr>) ''Foo'' = ''FOO'' \<and>
   handleCasing (demo_client\<lparr>methodCasing := CASING_DEFAULT\<rparr>) ''Foo'' = ''Foo'' \<and>
   JStr ''lower'' \<notin> {CASING_DEFAULT, CASING_UPPER, CASING_LOWER} \<and>
   handleCasing (demo_client\<lparr>methodCasing := JStr ''lower''\<rparr>) ''Foo'' = ''Foo''"
  using handleCasing_policies [of demo_client "''Foo''" "JStr ''lower''"]
  by (simp add: toLowerCase_Foo toUpperCase_Foo CASING_DEFAULT_def CASING_UPPER_def
      CASING_LOWER_def)

section \<open>Response interpretation\<close>

text \<open>
  What the handler does, for a body that \<^verbatim>\<open>JSON.parse\<close> accepts: status 200 resolves
  with the parsed body; another status with the content-type header equal to
  \<^verbatim>\<open>application/json\<close> rejects with the parsed body. Another status with any other
  content-type header, or none, rejects with the error that carries the status code.
\<close>

lemma response_discrimination:
  "(statusCode res = 200 \<and> parse b (concat (chunks res)) = Some v \<longrightarrow> on_end b res = Resolve v) \<and>
   (statusCode res \<noteq> 200 \<and> map_of (headers res) ''content-type'' = Some ''application/json'' \<and>
      parse b (concat (chunks res)) = Some v \<longrightarrow> on_end b res = RejectJson v) \<and>
   (statusCode res \<noteq> 200 \<and> map_of (headers res) ''content-type'' \<noteq> Some ''application/json'' \<longrightarrow>
      on_end b res = RejectHttp (statusCode res))"
  by (simp add: on_end_def)

lemma response_discrimination_examples:
  "on_end demo_builtins \<lparr>statusCode = 200, headers = [], chunks = [''4'', ''2'']\<rparr> = Resolve (JNum 42) \<and>
   on_end demo_builtins \<lparr>statusCode = 500, headers = [(''content-type'', ''application/json'')],
      chunks = [''[500]'']\<rparr> = RejectJson (JArr [JNum 500]) \<and>
   on_end demo_builtins \<lparr>statusCode = 500, headers = [(''content-type'', ''text/plain'')],
      chunks = [''Internal Server Error'']\<rparr> = RejectHttp 500"
  by (simp add: on_end_def demo_builtins_def)

text \<open>
  C4. The claim: a response that is not 200 and whose content type indicates JSON rejects
  with the parsed body, and one with a body that is not JSON rejects with the error that
  carries the status. The code compares the header with the one string
  \<^verbatim>\<open>application/json\<close>: a 500 response with
  \<^verbatim>\<open>application/json; charset=utf-8\<close> and a body that parses is rejected with the
  status error instead of the parsed body. And a 500 response with the header
  \<^verbatim>\<open>application/json\<close> and a body that is not JSON is not rejected at all: the
  parser throws inside the handler and the promise is never settled.
\<close>

theorem json_with_charset_not_recognised:
  "on_end demo_builtins
     \<lparr>statusCode = 500, headers = [(''content-type'', ''application/json; charset=utf-8'')],
      chunks = [''[500]'']\<rparr> = RejectHttp 500 \<and>
   parse demo_builtins ''[500]'' = Some (JArr [JNum 500]) \<and>
   on_end demo_builtins
     \<lparr>statusCode = 500, headers = [(''content-type'', ''application/json'')],
      chunks = [''Internal Server Error'']\<rparr> = Uncaught"
  by (simp add: on_end_def demo_builtins_def)

section \<open>The outbound request\<close>

text \<open>
  With the protocol check of Node, a protocol string that selects a module without being
  that module's protocol is refused: \<^verbatim>\<open>https\<close> without the colon selects the https
  module, whose \<^verbatim>\<open>request\<close> throws; the promise is rejected and no exchange starts.
\<close>

lemma protocol_without_colon_refused:
  "fst (request demo_builtins ''getinfo'' [] 0
          (demo_world\<lparr>heap := (\<lambda>a. [(''protocol'', JStr ''https'')])\<rparr>)) =
     Rejected (RequestOptionsError ''ERR_INVALID_PROTOCOL'') \<and>
   exchanges (snd (request demo_builtins ''getinfo'' [] 0
          (demo_world\<lparr>heap := (\<lambda>a. [(''protocol'', JStr ''https'')])\<rparr>))) = []"
proof -
  let ?w = "demo_world\<lparr>heap := (\<lambda>a. [(''protocol'', JStr ''https'')])\<rparr>"
  have t: "trim ''https'' = ''https''" by (simp add: trim_def is_space_def)
  have l: "toLowerCase ''https'' = ''https''" by code_simp
  have p: "select_web (get_prop (heap ?w 0) ''protocol'') = Inr Https"
    by (simp add: get_prop_def select_web_def t l startsWith_def)
  have r: "web_request demo_builtins Https (prepare_options n (heap ?w 0)) =
      Some (RequestOptionsError ''ERR_INVALID_PROTOCOL'')" for n
    by (simp add: demo_builtins_def node_protocol_check_prepared)
       (simp add: node_protocol_check_def expected_protocol_def)
  show ?thesis
    using request_refused [OF p r, of "''getinfo''" "[]"] by (simp add: demo_world_def)
qed

text \<open>
  C8, as amended. Whenever \<^verbatim>\<open>request\<close> gets as far as sending (the protocol option
  is falsy or a string, and \<^verbatim>\<open>web.request\<close> accepts the options, which with Node
  requires a truthy protocol to be exactly \<^verbatim>\<open>http:\<close> or \<^verbatim>\<open>https:\<close>), it
  starts exactly one exchange after one call of the uuid generator made for this request
  alone: the id is a value the generator has not given out before, new among the ids so
  far if the generator never repeats a value. The body is the serialised object with the
  fields id, method (the given string with white space trimmed from both ends), params
  (the given array) and jsonrpc (\<^verbatim>\<open>2.0\<close>). The options sent have method POST, the
  header content-type \<^verbatim>\<open>application/json\<close> and the header content-length equal to
  the byte length of the body; auth is \<^verbatim>\<open>user:pass\<close> when both are truthy and is
  left as the caller gave it otherwise.
\<close>

theorem request_wire_format:
  assumes "select_web (get_prop (heap w options) ''protocol'') = Inr sch"
    and "web_request b sch
           (prepare_options
              (byteLength b (stringify b (JSONRPCRequest (uuid b (uuid_calls w)) (trim m) params)))
              (heap w options)) = None"
  shows "\<exists>ex w'. request b m params options w = (InFlight ex, w') \<and>
     exchanges w' = exchanges w @ [ex] \<and>
     uuid_calls w' = Suc (uuid_calls w) \<and>
     issued_ids b w' = insert (uuid b (uuid_calls w)) (issued_ids b w) \<and>
     (inj (uuid b) \<longrightarrow> uuid b (uuid_calls w) \<notin> issued_ids b w) \<and>
     web ex = sch \<and>
     sent_body ex =
       stringify b (JObj [(''id'', JStr (uuid b (uuid_calls w))), (''method'', JStr (trim m)),
                          (''params'', JArr params), (''jsonrpc'', JStr ''2.0'')]) \<and>
     get_prop (sent_options ex) ''method'' = JStr ''POST'' \<and>
     (\<exists>h. get_prop (sent_options ex) ''headers'' = JObj h \<and>
          get_prop h ''content-type'' = JStr ''application/json'' \<and>
          get_prop h ''content-length'' = JNum (int (byteLength b (sent_body ex)))) \<and>
     get_prop (sent_options ex) ''auth'' =
       (if truthy (get_prop (heap w options) ''user'') \<and> truthy (get_prop (heap w options) ''pass'')
        then JStr (ToString (get_prop (heap w options) ''user'') @ '':'' @
                   ToString (get_prop (heap w options) ''pass''))
        else get_prop (heap w options) ''auth'')"
proof -
  have fresh: "inj (uuid b) \<longrightarrow> uuid b (uuid_calls w) \<notin> issued_ids b w"
    by (auto simp: issued_ids_def inj_def)
  have grown: "issued_ids b (w\<lparr>uuid_calls := Suc (uuid_calls w)\<rparr>) =
      insert (uuid b (uuid_calls w)) (issued_ids b w)"
    by (simp add: issued_ids_def lessThan_Suc)
  have ids: "issued_ids b (w'\<lparr>heap := h, exchanges := x\<rparr>) = issued_ids b w'" for w' h x
    by (simp add: issued_ids_def)
  show ?thesis
    using request_in_flight [OF assms, of] prepare_options_headers fresh grown
    by (simp add: Let_def prepare_options_method prepare_options_auth
        JSONRPCRequest_def RPC_VERSION_def ids)
qed

lemma demo_uuid_inj: "inj (uuid demo_builtins)"
  by (simp add: demo_builtins_def inj_def)

theorem request_wire_format_witness:
  "\<exists>ex w'. request demo_builtins ''getinfo'' [] 0 demo_world = (InFlight ex, w') \<and>
     exchanges w' = [ex] \<and> uuid_calls w' = 1 \<and>
     issued_ids demo_builtins w' = {''uuid-''} \<and>
     web ex = Http \<and>
     sent_body ex = ''{id:uuid-,method:getinfo,params:[],jsonrpc:2.0}'' \<and>
     get_prop (sent_options ex) ''method'' = JStr ''POST'' \<and>
     (\<exists>h. get_prop (sent_options ex) ''headers'' = JObj h \<and>
          get_prop h ''content-type'' = JStr ''application/json'' \<and>
          get_prop h ''content-length'' = JNum 47) \<and>
     get_prop (sent_options ex) ''auth'' = JStr ''rpc:secret''"
proof -
  have u: "uuid demo_builtins 0 = ''uuid-''"
    by (simp add: demo_builtins_def)
  have t: "trim ''getinfo'' = ''getinfo''"
    by (simp add: trim_def is_space_def)
  have r: "render (JObj [(''id'', JStr ''uuid-''), (''method'', JStr ''getinfo''),
      (''params'', JArr []), (''jsonrpc'', JStr ''2.0'')]) =
      ''{id:uuid-,method:getinfo,params:[],jsonrpc:2.0}''"
    by simp
  have s: "stringify demo_builtins = render" "byteLength demo_builtins = length"
    by (simp_all add: demo_builtins_def)
  have g: "get_prop (heap demo_world 0) ''user'' = JStr ''rpc''"
    "get_prop (heap demo_world 0) ''pass'' = JStr ''secret''"
    "exchanges demo_world = []" "uuid_calls demo_world = 0"
    by (simp_all add: demo_world_def get_prop_def)
  have i: "issued_ids demo_builtins demo_world = {}"
    by (simp add: issued_ids_def demo_world_def)
  show ?thesis
    using request_wire_format [OF demo_protocol demo_accepted, of "''getinfo''" "[]"] demo_uuid_inj
    by (auto simp add: u t r s g i)
qed

text \<open>
  C8 as stated fails for a method string with white space around it: the method on the
  wire is not the given string but its trimmed form.
\<close>

theorem wire_method_is_trimmed:
  "body_of (fst (request demo_builtins '' getinfo'' [] 0 demo_world)) =
     Some ''{id:uuid-,method:getinfo,params:[],jsonrpc:2.0}'' \<and>
   render (JSONRPCRequest ''uuid-'' '' getinfo'' []) =
     ''{id:uuid-,method: getinfo,params:[],jsonrpc:2.0}''"
proof -
  have t: "trim '' getinfo'' = ''getinfo''"
    by (simp add: trim_def is_space_def)
  show ?thesis
    by (simp add: demo_request Let_def body_of_def t JSONRPCRequest_def RPC_VERSION_def)
qed

section \<open>Connection resolution\<close>

lemma chain_filter_log:
  "chain_filter fs path es lg = (res, lg') \<Longrightarrow>
   \<exists>ops. lg' = lg @ ops \<and> (\<forall>op\<in>set ops. \<not> is_read_file op)"
proof (induction es arbitrary: lg res lg')
  case Nil
  then show ?case by simp
next
  case (Cons element es)
  let ?p = "path @ ''/'' @ element"
  show ?case
  proof (cases "isDirectory fs ?p")
    case (Inl e)
    then have "lg' = lg @ [Stat ?p]" using Cons.prems by (simp add: Let_def)
    then show ?thesis by simp
  next
    case (Inr d)
    obtain res1 lg1 where rec: "chain_filter fs path es (lg @ [Stat ?p]) = (res1, lg1)"
      by (cases "chain_filter fs path es (lg @ [Stat ?p])") simp
    from Cons.IH [OF rec] obtain ops where
      ops: "lg1 = (lg @ [Stat ?p]) @ ops" "\<forall>op\<in>set ops. \<not> is_read_file op" by blast
    have "lg' = lg1"
      using Cons.prems Inr rec by (cases res1) (simp_all add: Let_def)
    then have "lg' = lg @ (Stat ?p # ops)" using ops(1) by simp
    moreover have "\<forall>op\<in>set (Stat ?p # ops). \<not> is_read_file op" using ops(2) by simp
    ultimately show ?thesis by blast
  qed
qed

lemma getChainNames_log:
  "getChainNames fs P lg = (res, lg') \<Longrightarrow>
   \<exists>ops. lg' = lg @ ops \<and> (\<forall>op\<in>set ops. \<not> is_read_file op)"
proof (cases "readdirSync fs P")
  case (Inl e)
  assume "getChainNames fs P lg = (res, lg')"
  then have "lg' = lg @ [Readdir P]" using Inl by (simp add: getChainNames_def)
  then show ?thesis by simp
next
  case (Inr es)
  assume "getChainNames fs P lg = (res, lg')"
  then have "chain_filter fs P es (lg @ [Readdir P]) = (res, lg')"
    using Inr by (simp add: getChainNames_def)
  from chain_filter_log [OF this] obtain ops where
    ops: "lg' = (lg @ [Readdir P]) @ ops" "\<forall>op\<in>set ops. \<not> is_read_file op" by blast
  then have "lg' = lg @ (Readdir P # ops)" by simp
  moreover have "\<forall>op\<in>set (Readdir P # ops). \<not> is_read_file op" using ops(2) by simp
  ultimately show ?thesis by blast
qed

text \<open>
  C9. When the requested name is not among the names \<^verbatim>\<open>getChainNames\<close> returns,
  \<^verbatim>\<open>getConnectionByName\<close> throws the invalid-chain error; the only file system
  operations it has performed are those of the enumeration, none of which reads a file,
  and the world is otherwise as before: the connection object is untouched.
\<close>

theorem invalid_instance_reads_nothing:
  assumes "getChainNames fs CHAIN_PATH (fs_log w) = (Inr names, lg)"
    and "nm \<notin> set names"
  shows "\<exists>ops. getConnectionByName fs CHAIN_PATH nm conn w =
            (Inl InvalidChain, w\<lparr>fs_log := fs_log w @ ops\<rparr>)
          \<and> (\<forall>op\<in>set ops. \<not> is_read_file op)
          \<and> heap (snd (getConnectionByName fs CHAIN_PATH nm conn w)) = heap w"
proof -
  from getChainNames_log [OF assms(1)] obtain ops where
    ops: "lg = fs_log w @ ops" "\<forall>op\<in>set ops. \<not> is_read_file op" by blast
  have "getConnectionByName fs CHAIN_PATH nm conn w = (Inl InvalidChain, w\<lparr>fs_log := fs_log w @ ops\<rparr>)"
    using assms ops(1) by (simp add: getConnectionByName_def)
  then show ?thesis using ops(2) by (intro exI [of _ ops]) simp
qed

lemma demo_names:
  "getChainNames demo_fs ''/home/u/.multichain'' [] =
     (Inr [''chain1''], [Readdir ''/home/u/.multichain'', Stat ''/home/u/.multichain/.cli_history'',
        Stat ''/home/u/.multichain/chain1'', Stat ''/home/u/.multichain/multichaind''])"
  by (simp add: getChainNames_def demo_fs_def startsWith_def)

theorem invalid_instance_reads_nothing_witness:
  "\<exists>ops. getConnectionByName demo_fs ''/home/u/.multichain'' ''chain2'' 0 demo_world =
            (Inl InvalidChain, demo_world\<lparr>fs_log := fs_log demo_world @ ops\<rparr>)
          \<and> (\<forall>op\<in>set ops. \<not> is_read_file op)
          \<and> heap (snd (getConnectionByName demo_fs ''/home/u/.multichain'' ''chain2'' 0 demo_world)) =
              heap demo_world"
proof -
  have l: "fs_log demo_world = []" by (simp add: demo_world_def)
  have n: "''chain2'' \<notin> set [''chain1'']" by simp
  show ?thesis
    using invalid_instance_reads_nothing [OF demo_names [folded l] n, of 0] .
qed

section \<open>Configuration shared by reference\<close>

lemma request_heap:
  "select_web (get_prop (heap w options) ''protocol'') = Inr sch \<Longrightarrow>
   heap (snd (request b m params options w)) =
     (heap w)(options := prepare_options
        (byteLength b (stringify b (JSONRPCRequest (uuid b (uuid_calls w)) (trim m) params)))
        (heap w options))"
  by (simp add: request_def Let_def split: option.splits)

lemma read_config_success:
  "read_config fs dir conn w = (Inr c, w') \<Longrightarrow>
   c = conn \<and>
   (\<exists>u p port. heap w' =
      (heap w)(conn := set_prop ''port'' port (set_prop ''pass'' p (set_prop ''user'' u (heap w conn)))))"
  by (auto simp: read_config_def write_field_def Let_def
      split: sum.splits list.splits) blast

lemma getConnectionByName_success:
  assumes "getConnectionByName fs P nm conn w = (Inr c, w')"
  shows "c = conn \<and>
   (\<exists>u p port. heap w' =
      (heap w)(conn := set_prop ''port'' port (set_prop ''pass'' p (set_prop ''user'' u (heap w conn)))))"
proof -
  obtain res lg where g: "getChainNames fs P (fs_log w) = (res, lg)"
    by (cases "getChainNames fs P (fs_log w)") simp
  have "read_config fs (P @ ''/'' @ nm) conn (w\<lparr>fs_log := lg\<rparr>) = (Inr c, w')"
    using assms g by (cases res) (simp_all add: getConnectionByName_def split: if_splits)
  from read_config_success [OF this] show ?thesis by simp
qed

lemma demo_resolution:
  "fst (getConnectionByName demo_fs ''/home/u/.multichain'' ''chain1'' 0 demo_world) = Inr 0 \<and>
   heap (snd (getConnectionByName demo_fs ''/home/u/.multichain'' ''chain1'' 0 demo_world)) 0 =
     [(''host'', JStr ''localhost''), (''user'', JStr ''multichainrpc''),
      (''pass'', JStr ''s3cret''), (''port'', JStr ''4270'')]"
  by code_simp

lemma demo_defaults:
  "handleDefaults demo_client ''send'' [JStr ''1abc'', JNum 5] =
     Inr [JStr ''1abc'', JNum 5, JStr ''none'']"
  by code_simp

text \<open>
  C10. \<^verbatim>\<open>request\<close> writes to the options object it is given, at its address in the
  heap: method POST, fresh headers with the content type and content length, and auth when
  user and pass are truthy; \<^verbatim>\<open>call\<close> hands it the client's own connection object, so
  that object is the one written. \<^verbatim>\<open>getConnectionByName\<close> writes user, pass and port
  to the connection object it is given and returns that same object, which the setter of
  \<^verbatim>\<open>name\<close> stores back. No copy is made on either path.
\<close>

theorem configuration_mutated_in_place:
  "(select_web (get_prop (heap w options) ''protocol'') = Inr sch \<longrightarrow>
      (\<exists>n. heap (snd (request b m params options w)) =
              (heap w)(options := prepare_options n (heap w options))) \<and>
      get_prop (heap (snd (request b m params options w)) options) ''method'' = JStr ''POST'' \<and>
      (\<exists>h. get_prop (heap (snd (request b m params options w)) options) ''headers'' = JObj h \<and>
           get_prop h ''content-type'' = JStr ''application/json'') \<and>
      (truthy (get_prop (heap w options) ''user'') \<and> truthy (get_prop (heap w options) ''pass'') \<longrightarrow>
         get_prop (heap (snd (request b m params options w)) options) ''auth'' =
           JStr (ToString (get_prop (heap w options) ''user'') @ '':'' @
                 ToString (get_prop (heap w options) ''pass'')))) \<and>
   (select_web (get_prop (heap w (connection this)) ''protocol'') = Inr sch \<and>
    handleDefaults this m params = Inr r \<longrightarrow>
      (\<exists>n. heap (snd (call b this m params w)) =
              (heap w)(connection this := prepare_options n (heap w (connection this))))) \<and>
   (getConnectionByName fs P nm conn w = (Inr c, w') \<longrightarrow>
      c = conn \<and>
      (\<exists>u p port. heap w' =
         (heap w)(conn := set_prop ''port'' port
                            (set_prop ''pass'' p (set_prop ''user'' u (heap w conn)))))) \<and>
   (set_name fs P cl nm w = (Inr cl', w') \<longrightarrow> connection cl' = connection cl)"
proof (intro conjI impI)
  assume p: "select_web (get_prop (heap w options) ''protocol'') = Inr sch"
  show "\<exists>n. heap (snd (request b m params options w)) =
              (heap w)(options := prepare_options n (heap w options))"
    using request_heap [OF p] by blast
  show "get_prop (heap (snd (request b m params options w)) options) ''method'' = JStr ''POST''"
    using request_heap [OF p] by (simp add: prepare_options_method)
  show "\<exists>h. get_prop (heap (snd (request b m params options w)) options) ''headers'' = JObj h \<and>
           get_prop h ''content-type'' = JStr ''application/json''"
    using request_heap [OF p, of b m params] prepare_options_headers by (metis fun_upd_same)
  assume "truthy (get_prop (heap w options) ''user'') \<and> truthy (get_prop (heap w options) ''pass'')"
  then show "get_prop (heap (snd (request b m params options w)) options) ''auth'' =
           JStr (ToString (get_prop (heap w options) ''user'') @ '':'' @
                 ToString (get_prop (heap w options) ''pass''))"
    using request_heap [OF p] by (simp add: prepare_options_auth)
next
  assume a: "select_web (get_prop (heap w (connection this)) ''protocol'') = Inr sch \<and>
    handleDefaults this m params = Inr r"
  then have "snd (call b this m params w) = snd (request b (handleCasing this m) r (connection this) w)"
    using call_delegates [of this m params r b w] by (simp split: prod.splits)
  then show "\<exists>n. heap (snd (call b this m params w)) =
              (heap w)(connection this := prepare_options n (heap w (connection this)))"
    using request_heap [of w "connection this" sch b "handleCasing this m" r] a by auto
next
  assume g: "getConnectionByName fs P nm conn w = (Inr c, w')"
  show "c = conn" using getConnectionByName_success [OF g] by simp
  show "\<exists>u p port. heap w' =
         (heap w)(conn := set_prop ''port'' port
                            (set_prop ''pass'' p (set_prop ''user'' u (heap w conn))))"
    using getConnectionByName_success [OF g] by simp
next
  assume s: "set_name fs P cl nm w = (Inr cl', w')"
  obtain res w1 where g: "getConnectionByName fs P nm (connection cl) w = (res, w1)"
    by (cases "getConnectionByName fs P nm (connection cl) w") simp
  show "connection cl' = connection cl"
  proof (cases res)
    case (Inl e)
    then show ?thesis using s g by (simp add: set_name_def)
  next
    case (Inr c)
    then have "c = connection cl"
      using getConnectionByName_success [of fs P nm "connection cl" w c w1] g by simp
    then show ?thesis using s g Inr by (auto simp: set_name_def)
  qed
qed

theorem configuration_mutated_in_place_witness:
  "get_prop (heap (snd (request demo_builtins ''send'' [JStr ''1abc'', JNum 5] 0 demo_world)) 0)
     ''method'' = JStr ''POST'' \<and>
   get_prop (heap (snd (request demo_builtins ''send'' [JStr ''1abc'', JNum 5] 0 demo_world)) 0)
     ''auth'' = JStr ''rpc:secret'' \<and>
   (\<exists>n. heap (snd (call demo_builtins demo_client ''send'' [JStr ''1abc'', JNum 5] demo_world)) =
           (heap demo_world)(0 := prepare_options n (heap demo_world 0))) \<and>
   (\<exists>u p port.
      heap (snd (getConnectionByName demo_fs ''/home/u/.multichain'' ''chain1'' 0 demo_world)) =
        (heap demo_world)(0 := set_prop ''port'' port
           (set_prop ''pass'' p (set_prop ''user'' u (heap demo_world 0))))) \<and>
   connection (demo_chain_client\<lparr>connection := 0, name := ''chain1''\<rparr>) = connection demo_chain_client"
proof -
  define W where "W = snd (getConnectionByName demo_fs ''/home/u/.multichain'' ''chain1'' 0 demo_world)"
  have c0: "connection demo_client = 0" "connection demo_chain_client = 0"
    by (simp_all add: demo_client_def demo_chain_client_def)
  have g: "getConnectionByName demo_fs ''/home/u/.multichain'' ''chain1'' 0 demo_world = (Inr 0, W)"
    using demo_resolution by (simp add: W_def prod_eq_iff)
  have sn: "set_name demo_fs ''/home/u/.multichain'' demo_chain_client ''chain1'' demo_world =
      (Inr (demo_chain_client\<lparr>connection := 0, name := ''chain1''\<rparr>), W)"
    by (simp add: set_name_def c0 g)
  have up: "get_prop (heap demo_world 0) ''user'' = JStr ''rpc''"
    "get_prop (heap demo_world 0) ''pass'' = JStr ''secret''"
    by (simp_all add: demo_world_def get_prop_def)
  have "get_prop (heap (snd (request demo_builtins ''send'' [JStr ''1abc'', JNum 5] 0 demo_world)) 0)
     ''method'' = JStr ''POST'' \<and>
   get_prop (heap (snd (request demo_builtins ''send'' [JStr ''1abc'', JNum 5] 0 demo_world)) 0)
     ''auth'' = JStr ''rpc:secret'' \<and>
   (\<exists>n. heap (snd (call demo_builtins demo_client ''send'' [JStr ''1abc'', JNum 5] demo_world)) =
           (heap demo_world)(0 := prepare_options n (heap demo_world 0))) \<and>
   (\<exists>u p port. heap W =
        (heap demo_world)(0 := set_prop ''port'' port
           (set_prop ''pass'' p (set_prop ''user'' u (heap demo_world 0))))) \<and>
   connection (demo_chain_client\<lparr>connection := 0, name := ''chain1''\<rparr>) = connection demo_chain_client"
    using configuration_mutated_in_place [where w = demo_world and options = 0 and sch = Http
        and b = demo_builtins and m = "''send''" and params = "[JStr ''1abc'', JNum 5]"
        and this = demo_client and r = "[JStr ''1abc'', JNum 5, JStr ''none'']"
        and fs = demo_fs and P = "''/home/u/.multichain''" and nm = "''chain1''" and conn = 0
        and c = 0 and w' = W and cl = demo_chain_client
        and cl' = "demo_chain_client\<lparr>connection := 0, name := ''chain1''\<rparr>"]
      demo_protocol demo_defaults
    by (simp add: c0 up g sn)
  then show ?thesis by (simp add: W_def)
qed

section \<open>Command bindings\<close>

lemma fold_delete:
  "fold (\<lambda>command t. t(command := None)) ks this k = (if k \<in> set ks then None else this k)"
  by (induction ks arbitrary: this) auto

lemma unbind_and_store_apply:
  "unbind_and_store this v k =
     (if k = ''_commands'' then Some v
      else if k \<in> set (for_in_keys (this ''_commands'')) then None else this k)"
  by (simp add: unbind_and_store_def Let_def fold_delete)

lemma fold_bind_command:
  "''commands'' \<notin> set ks \<Longrightarrow>
   fold bind_command ks this k = (if k \<in> set ks then Some (PFun k) else this k)"
  by (induction ks arbitrary: this) (auto simp: bind_command_def)

lemma set_commands_apply:
  assumes "''commands'' \<notin> fst ` set s"
  shows "set_commands this (PSchema s) k =
     (if k \<in> fst ` set s then Some (PFun k)
      else if k = ''_commands'' then Some (PSchema s)
      else if k \<in> set (for_in_keys (this ''_commands'')) then None else this k)"
proof -
  have keys: "for_in_keys (Some (PSchema s)) = map fst s"
    by (simp add: for_in_keys_def)
  have "''commands'' \<notin> set (map fst s)" using assms by simp
  from fold_bind_command [OF this] show ?thesis
    by (simp add: set_commands_def Let_def keys unbind_and_store_apply)
qed

text \<open>
  Where the loop does not come to the name \<^verbatim>\<open>name\<close> on a Multichain client, the
  setter does on either class what it does on the base class, and throws nothing.
\<close>

lemma bind_loop_plain:
  "cls = Client_class \<longrightarrow> ''name'' \<notin> set ks \<Longrightarrow>
   bind_loop cls fs P ks this w = ((None, fold bind_command ks this), w)"
  by (induction ks arbitrary: this) (auto simp: bind_command_on_def)

lemma set_commands_on_plain:
  assumes "cls = Client_class \<longrightarrow> ''name'' \<notin> fst ` set s"
  shows "set_commands_on cls fs P this (PSchema s) w = ((None, set_commands this (PSchema s)), w)"
proof -
  have "cls = Client_class \<longrightarrow> ''name'' \<notin> set (map fst s)" using assms by simp
  from bind_loop_plain [OF this] show ?thesis
    by (simp add: set_commands_on_def set_commands_def Let_def unbind_and_store_apply
        for_in_keys_def)
qed

text \<open>
  Where it does, the loop ends there with the error of the setter of \<^verbatim>\<open>name\<close>: the
  keys before it are bound, the keys after it are not visited.
\<close>

lemma bind_loop_name:
  "''name'' \<in> set ks \<Longrightarrow>
   bind_loop Client_class fs P ks this w =
     ((Some (fst (set_name_function fs P w)),
       fold bind_command (takeWhile (\<lambda>k. k \<noteq> ''name'') ks) this),
      snd (set_name_function fs P w))"
  by (induction ks arbitrary: this) (auto simp: bind_command_on_def split: prod.splits)

lemma set_commands_on_name:
  assumes "''name'' \<in> fst ` set s"
  shows "set_commands_on Client_class fs P this (PSchema s) w =
     ((Some (fst (set_name_function fs P w)),
       fold bind_command (takeWhile (\<lambda>k. k \<noteq> ''name'') (map fst s))
         (unbind_and_store this (PSchema s))),
      snd (set_name_function fs P w))"
proof -
  have "''name'' \<in> set (map fst s)" using assms by simp
  from bind_loop_name [OF this] show ?thesis
    by (simp add: set_commands_on_def Let_def unbind_and_store_apply for_in_keys_def)
qed

lemma set_name_function_error:
  "fst (set_name_function fs P w) = InvalidChain \<or>
   (\<exists>lg. getChainNames fs P (fs_log w) = (Inl (fst (set_name_function fs P w)), lg))"
  by (auto simp: set_name_function_def split: prod.splits sum.splits)

lemma new_client_props:
  "''commands'' \<notin> fst ` set s \<Longrightarrow>
   new_JSONRPCClient conn s casing k =
     (if k = ''methodCasing'' then Some (PVal (if casing = JUndefined then CASING_LOWER else casing))
      else if k \<in> fst ` set s then Some (PFun k)
      else if k = ''_commands'' then Some (PSchema s)
      else if k = ''connection'' then Some (PRef conn) else None)"
  by (simp add: new_JSONRPCClient_def Let_def set_commands_apply for_in_keys_def)

text \<open>
  A client constructed with a command table that avoids the names of the client's own
  fields and methods is the client record that \<^verbatim>\<open>call\<close> works on.
\<close>

lemma new_client_as_record:
  assumes "''commands'' \<notin> fst ` set s" and "''_commands'' \<notin> fst ` set s"
    and "''connection'' \<notin> fst ` set s" and "''call'' \<notin> fst ` set s"
    and "''handleDefaults'' \<notin> fst ` set s" and "''handleCasing'' \<notin> fst ` set s"
  shows "as_client (new_JSONRPCClient conn s casing) =
     Some \<lparr>connection = conn, commands = s,
           methodCasing = (if casing = JUndefined then CASING_LOWER else casing)\<rparr>"
proof -
  let ?cl = "new_JSONRPCClient conn s casing"
  have 1: "?cl ''connection'' = Some (PRef conn)"
    using assms(3) by (simp add: new_client_props [OF assms(1)])
  have 2: "?cl ''_commands'' = Some (PSchema s)"
    using assms(2) by (simp add: new_client_props [OF assms(1)])
  have 3: "?cl ''methodCasing'' = Some (PVal (if casing = JUndefined then CASING_LOWER else casing))"
    by (simp add: new_client_props [OF assms(1)])
  have 4: "?cl ''call'' = None"
    using assms(4) by (simp add: new_client_props [OF assms(1)])
  have 5: "?cl ''handleDefaults'' = None"
    using assms(5) by (simp add: new_client_props [OF assms(1)])
  have 6: "?cl ''handleCasing'' = None"
    using assms(6) by (simp add: new_client_props [OF assms(1)])
  show ?thesis
    unfolding as_client_def by (simp only: 1 2 3 4 5 6) simp
qed

lemma demo_set_name_function:
  "fst (set_name_function demo_fs ''/home/u/.multichain'' demo_world) = InvalidChain"
proof -
  have l: "fs_log demo_world = []" by (simp add: demo_world_def)
  show ?thesis by (simp add: set_name_function_def l demo_names)
qed

text \<open>
  C5, as amended. For a command table without the keys \<^verbatim>\<open>commands\<close> and
  \<^verbatim>\<open>__proto__\<close> (whose assignment reaches an accessor that does not throw; the second
  is outside the model): a key that collides with a method of the client (\<^verbatim>\<open>call\<close>,
  \<^verbatim>\<open>handleDefaults\<close>, \<^verbatim>\<open>handleCasing\<close>) or with one of its fields
  (\<^verbatim>\<open>connection\<close>, \<^verbatim>\<open>methodCasing\<close>) surfaces no error and is bound like every
  other key, as an own property that shadows the method or replaces the field. The one
  colliding key that surfaces an error is \<^verbatim>\<open>name\<close> on a Multichain client: the
  assignment reaches the setter of \<^verbatim>\<open>name\<close>, which throws the invalid-chain error (or
  the error of the directory enumeration) and ends the loop.
\<close>

theorem reserved_key_is_bound:
  assumes "''commands'' \<notin> fst ` set s"
    and "''__proto__'' \<notin> fst ` set s"
  shows "((cls = Client_class \<longrightarrow> ''name'' \<notin> fst ` set s) \<longrightarrow>
            (\<exists>this'. set_commands_on cls fs P this (PSchema s) w = ((None, this'), w) \<and>
                      (\<forall>k \<in> fst ` set s. resolve cls this' k = Some (Own (PFun k))))) \<and>
         (cls = Client_class \<and> ''name'' \<in> fst ` set s \<longrightarrow>
            (\<exists>e this' w'. set_commands_on cls fs P this (PSchema s) w = ((Some e, this'), w') \<and>
               (e = InvalidChain \<or> (\<exists>lg. getChainNames fs P (fs_log w) = (Inl e, lg)))))"
proof (intro conjI impI)
  assume "cls = Client_class \<longrightarrow> ''name'' \<notin> fst ` set s"
  from set_commands_on_plain [OF this]
  have "set_commands_on cls fs P this (PSchema s) w = ((None, set_commands this (PSchema s)), w)" .
  moreover have "\<forall>k \<in> fst ` set s. resolve cls (set_commands this (PSchema s)) k = Some (Own (PFun k))"
    by (simp add: resolve_def set_commands_apply [OF assms(1)])
  ultimately show "\<exists>this'. set_commands_on cls fs P this (PSchema s) w = ((None, this'), w) \<and>
      (\<forall>k \<in> fst ` set s. resolve cls this' k = Some (Own (PFun k)))"
    by blast
next
  assume a: "cls = Client_class \<and> ''name'' \<in> fst ` set s"
  then have "set_commands_on cls fs P this (PSchema s) w =
     ((Some (fst (set_name_function fs P w)),
       fold bind_command (takeWhile (\<lambda>k. k \<noteq> ''name'') (map fst s))
         (unbind_and_store this (PSchema s))),
      snd (set_name_function fs P w))"
    using set_commands_on_name [of s fs P this w] by simp
  then show "\<exists>e this' w'. set_commands_on cls fs P this (PSchema s) w = ((Some e, this'), w') \<and>
      (e = InvalidChain \<or> (\<exists>lg. getChainNames fs P (fs_log w) = (Inl e, lg)))"
    using set_name_function_error [of fs P w] by blast
qed

theorem reserved_key_is_bound_witness:
  "(\<exists>this'. set_commands_on Client_class demo_fs ''/home/u/.multichain''
        (new_JSONRPCClient 0 [] JUndefined)
        (PSchema [(''getinfo'', []), (''call'', [JStr ''x''])]) demo_world = ((None, this'), demo_world) \<and>
      resolve Client_class this' ''call'' = Some (Own (PFun ''call''))) \<and>
   (\<exists>e this' w'. set_commands_on Client_class demo_fs ''/home/u/.multichain''
        (new_JSONRPCClient 0 [] JUndefined)
        (PSchema [(''name'', []), (''getinfo'', [])]) demo_world = ((Some e, this'), w'))"
  using reserved_key_is_bound [of "[(''getinfo'', []), (''call'', [JStr ''x''])]" Client_class
      demo_fs "''/home/u/.multichain''" "new_JSONRPCClient 0 [] JUndefined" demo_world]
    reserved_key_is_bound [of "[(''name'', []), (''getinfo'', [])]" Client_class
      demo_fs "''/home/u/.multichain''" "new_JSONRPCClient 0 [] JUndefined" demo_world]
  by auto

text \<open>
  C5 as stated fails: on a Multichain client whose \<^verbatim>\<open>call\<close> is the method of the
  prototype, a table with the key \<^verbatim>\<open>call\<close> is assigned without any error and
  \<^verbatim>\<open>call\<close> resolves to the convenience function afterwards.
\<close>

theorem call_silently_overwritten:
  "resolve Client_class (new_JSONRPCClient 0 [] JUndefined) ''call'' = Some (Method ''call'') \<and>
   fst (fst (set_commands_on Client_class demo_fs ''/home/u/.multichain''
               (new_JSONRPCClient 0 [] JUndefined) (PSchema [(''call'', [])]) demo_world)) = None \<and>
   resolve Client_class
     (snd (fst (set_commands_on Client_class demo_fs ''/home/u/.multichain''
               (new_JSONRPCClient 0 [] JUndefined) (PSchema [(''call'', [])]) demo_world)))
     ''call'' = Some (Own (PFun ''call''))"
proof -
  have "set_commands_on Client_class demo_fs ''/home/u/.multichain''
      (new_JSONRPCClient 0 [] JUndefined) (PSchema [(''call'', [])]) demo_world =
      ((None, set_commands (new_JSONRPCClient 0 [] JUndefined) (PSchema [(''call'', [])])), demo_world)"
    by (rule set_commands_on_plain) simp
  then show ?thesis
    by (simp add: resolve_def prototype_of_def new_client_props set_commands_apply
        JSONRPCClient_prototype_def)
qed

text \<open>
  Where the bindings do match the table: on a client whose bound functions all belong to keys of
  its current command table, assigning a table without the keys \<^verbatim>\<open>commands\<close>,
  \<^verbatim>\<open>_commands\<close> and \<^verbatim>\<open>__proto__\<close>, and on a Multichain client without the key
  \<^verbatim>\<open>name\<close>, makes it the current table, binds under every key of it the function that
  forwards to \<^verbatim>\<open>call\<close> with that key, and leaves no bound function under any other
  name.
\<close>

lemma bindings_match_schema:
  assumes "''commands'' \<notin> fst ` set s"
    and "''_commands'' \<notin> fst ` set s"
    and "''__proto__'' \<notin> fst ` set s"
    and "cls = Client_class \<longrightarrow> ''name'' \<notin> fst ` set s"
    and "\<forall>k c. this k = Some (PFun c) \<longrightarrow> k \<in> set (for_in_keys (this ''_commands''))"
  shows "\<exists>this'. set_commands_on cls fs P this (PSchema s) w = ((None, this'), w) \<and>
         this' ''_commands'' = Some (PSchema s) \<and>
         (\<forall>k \<in> fst ` set s. this' k = Some (PFun k)) \<and>
         (\<forall>k c. this' k = Some (PFun c) \<longrightarrow> k \<in> fst ` set s)"
proof -
  let ?t = "set_commands this (PSchema s)"
  have 1: "?t ''_commands'' = Some (PSchema s)"
    using assms(2) by (simp add: set_commands_apply [OF assms(1)])
  have 2: "\<forall>k \<in> fst ` set s. ?t k = Some (PFun k)"
    by (simp add: set_commands_apply [OF assms(1)])
  have 3: "\<forall>k c. ?t k = Some (PFun c) \<longrightarrow> k \<in> fst ` set s"
  proof (intro allI impI)
    fix k c assume b: "?t k = Some (PFun c)"
    show "k \<in> fst ` set s"
    proof (rule ccontr)
      assume n: "k \<notin> fst ` set s"
      then have "k \<noteq> ''_commands''" "k \<notin> set (for_in_keys (this ''_commands''))"
        "this k = Some (PFun c)"
        using b by (auto simp: set_commands_apply [OF assms(1)] split: if_splits)
      then show False using assms(5) by blast
    qed
  qed
  show ?thesis
    using set_commands_on_plain [OF assms(4), of fs P this w] 1 2 3 by blast
qed

text \<open>
  C6. The claim: after every assignment of a command table, each key of the new table is
  bound and nothing else is. With the key \<^verbatim>\<open>commands\<close> in the table the code breaks
  it: binding that key runs the setter again, which deletes the bindings made so far and
  stores the function as the table. After assigning the table with the keys \<^verbatim>\<open>a\<close>
  and \<^verbatim>\<open>commands\<close>, on either class, nothing is bound under \<^verbatim>\<open>a\<close> and the
  current table is a function. On a Multichain client the key \<^verbatim>\<open>name\<close> breaks it
  too: the loop ends there with an error, and the key \<^verbatim>\<open>b\<close> after it stays unbound.
\<close>

theorem commands_key_unbinds_the_others:
  "set_commands (new_JSONRPCClient 0 [] JUndefined)
     (PSchema [(''a'', []), (''commands'', [])]) ''a'' = None \<and>
   set_commands (new_JSONRPCClient 0 [] JUndefined)
     (PSchema [(''a'', []), (''commands'', [])]) ''_commands'' = Some (PFun ''commands'') \<and>
   set_commands_on Client_class demo_fs ''/home/u/.multichain'' (new_JSONRPCClient 0 [] JUndefined)
     (PSchema [(''a'', []), (''commands'', [])]) demo_world =
     ((None, set_commands (new_JSONRPCClient 0 [] JUndefined)
               (PSchema [(''a'', []), (''commands'', [])])), demo_world) \<and>
   fst (fst (set_commands_on Client_class demo_fs ''/home/u/.multichain''
               (new_JSONRPCClient 0 [] JUndefined)
               (PSchema [(''name'', []), (''b'', [])]) demo_world)) = Some InvalidChain \<and>
   snd (fst (set_commands_on Client_class demo_fs ''/home/u/.multichain''
               (new_JSONRPCClient 0 [] JUndefined)
               (PSchema [(''name'', []), (''b'', [])]) demo_world)) ''b'' = None"
proof -
  have a: "set_commands (new_JSONRPCClient 0 [] JUndefined)
      (PSchema [(''a'', []), (''commands'', [])]) ''a'' = None"
    "set_commands (new_JSONRPCClient 0 [] JUndefined)
      (PSchema [(''a'', []), (''commands'', [])]) ''_commands'' = Some (PFun ''commands'')"
    by (simp_all add: set_commands_def unbind_and_store_def bind_command_def Let_def
        for_in_keys_def new_client_props)
  have c: "set_commands_on Client_class demo_fs ''/home/u/.multichain''
      (new_JSONRPCClient 0 [] JUndefined) (PSchema [(''a'', []), (''commands'', [])]) demo_world =
      ((None, set_commands (new_JSONRPCClient 0 [] JUndefined)
                (PSchema [(''a'', []), (''commands'', [])])), demo_world)"
    by (rule set_commands_on_plain) simp
  have b: "unbind_and_store (new_JSONRPCClient 0 [] JUndefined)
      (PSchema [(''name'', []), (''b'', [])]) ''b'' = None"
    by (simp add: unbind_and_store_apply new_client_props for_in_keys_def)
  have n: "fst (fst (set_commands_on Client_class demo_fs ''/home/u/.multichain''
               (new_JSONRPCClient 0 [] JUndefined)
               (PSchema [(''name'', []), (''b'', [])]) demo_world)) = Some InvalidChain"
    using set_commands_on_name [of "[(''name'', []), (''b'', [])]" demo_fs "''/home/u/.multichain''"
        "new_JSONRPCClient 0 [] JUndefined" demo_world] demo_set_name_function
    by simp
  have nb: "snd (fst (set_commands_on Client_class demo_fs ''/home/u/.multichain''
               (new_JSONRPCClient 0 [] JUndefined)
               (PSchema [(''name'', []), (''b'', [])]) demo_world)) ''b'' = None"
    using set_commands_on_name [of "[(''name'', []), (''b'', [])]" demo_fs "''/home/u/.multichain''"
        "new_JSONRPCClient 0 [] JUndefined" demo_world] b
    by simp
  show ?thesis
    using a c n nb by simp
qed

end
